theory Spec2Isabelle
  imports Main "HOL-Library.Word"
begin

section \<open>The xDS resource cache of marin3r (package cache)\<close>

text \<open>
  The package keeps, for every envoy node, a snapshot of six versioned resource
  collections. The Go type is \<^verbatim>\<open>type Cache map[string]*xds_cache.Snapshot\<close>; a snapshot
  is \<^verbatim>\<open>struct { Resources [6]Resources }\<close> and a collection is
  \<^verbatim>\<open>struct { Version string; Items map[string]types.Resource }\<close> (go-control-plane, cache/v2).

  Representation choices:
  \<^item> \<^verbatim>\<open>cache[nodeID]\<close> is a pointer that is nil when the key is missing. The cache is a
    map \<open>string \<rightharpoonup> Snapshot\<close>, \<open>None\<close> being the nil pointer. Every pointer stored by
    \<^verbatim>\<open>NewNodeCache\<close> is freshly allocated, so two keys never share a snapshot and the
    snapshot is stored by value.
  \<^item> \<^verbatim>\<open>types.Resource\<close> is an interface: a value of it is \<open>'r option\<close>, \<open>None\<close> being the
    nil interface, which is also the zero value a Go map returns for a missing key.
  \<^item> Go maps are \<open>\<rightharpoonup>\<close> maps; every map of the model is allocated (not the nil map), as
    \<^verbatim>\<open>NewCache\<close>, \<^verbatim>\<open>NewResources\<close> and \<^verbatim>\<open>ClearResources\<close> make them.
  \<^item> Go's \<^verbatim>\<open>int\<close> is a 64-bit two's complement integer (\<open>64 word\<close>, read with \<open>sint\<close>)
    where it holds a version; the array index \<^verbatim>\<open>ResponseType\<close> is an \<open>int\<close> that is
    compared with the array bounds only.
  \<^item> A run-time panic is a value: every operation returns an outcome together with the
    cache as the call leaves it.
\<close>

subsection \<open>Data model\<close>

type_synonym 'r Resource = "'r option"

record 'r Resources =
  Version :: string
  Items :: "string \<rightharpoonup> 'r Resource"

datatype 'a array6 = Array6 'a 'a 'a 'a 'a 'a

record 'r Snapshot =
  Resources :: "'r Resources array6"

type_synonym 'r Cache = "string \<rightharpoonup> 'r Snapshot"

type_synonym ResponseType = int

datatype panic = NilPointerDereference | IndexOutOfRange

datatype 'a outcome = Panics panic | Returns 'a

text \<open>The errors of strconv: \<^verbatim>\<open>&NumError{Func, Num, Err}\<close> with \<^verbatim>\<open>Err\<close> one of two values.\<close>

datatype num_err = ErrSyntax | ErrRange

datatype go_error = NumError string string num_err

type_synonym go_int = "64 word"

subsection \<open>Constants\<close>

definition startingVersion :: go_int where
  "startingVersion = 1"

text \<open>
  The six resource types are the library's \<^verbatim>\<open>iota\<close> constants, in the order the package
  comment lists the slots of a snapshot.
\<close>

definition Endpoint :: ResponseType where "Endpoint = 0"
definition Cluster :: ResponseType where "Cluster = 1"
definition Route :: ResponseType where "Route = 2"
definition Listener :: ResponseType where "Listener = 3"
definition Secret :: ResponseType where "Secret = 4"
definition Runtime :: ResponseType where "Runtime = 5"

subsection \<open>Arrays of six elements\<close>

text \<open>Index and update of a \<^verbatim>\<open>[6]T\<close>; the callers check the bounds first, as Go does.\<close>

fun index6 :: "'a array6 \<Rightarrow> int \<Rightarrow> 'a" where
  "index6 (Array6 a0 a1 a2 a3 a4 a5) i =
     (if i = 0 then a0 else if i = 1 then a1 else if i = 2 then a2
      else if i = 3 then a3 else if i = 4 then a4 else a5)"

fun update6 :: "'a array6 \<Rightarrow> int \<Rightarrow> 'a \<Rightarrow> 'a array6" where
  "update6 (Array6 a0 a1 a2 a3 a4 a5) i v =
     (if i = 0 then Array6 v a1 a2 a3 a4 a5
      else if i = 1 then Array6 a0 v a2 a3 a4 a5
      else if i = 2 then Array6 a0 a1 v a3 a4 a5
      else if i = 3 then Array6 a0 a1 a2 v a4 a5
      else if i = 4 then Array6 a0 a1 a2 a3 v a5
      else if i = 5 then Array6 a0 a1 a2 a3 a4 v
      else Array6 a0 a1 a2 a3 a4 a5)"

definition in_bounds :: "int \<Rightarrow> bool" where
  "in_bounds i \<longleftrightarrow> 0 \<le> i \<and> i < 6"

subsection \<open>strconv.Itoa and strconv.Atoi\<close>

text \<open>
  Both are functions of the Go standard library. \<^verbatim>\<open>Itoa\<close> prints the decimal digits, after
  a minus sign for a negative number.
\<close>

definition digit_char :: "nat \<Rightarrow> char" where
  "digit_char d = ''0123456789'' ! d"

fun formatBits :: "nat \<Rightarrow> string" where
  "formatBits u = (if u < 10 then [digit_char u] else formatBits (u div 10) @ [digit_char (u mod 10)])"

declare formatBits.simps [simp del]

definition Itoa :: "go_int \<Rightarrow> string" where
  "Itoa i = (if sint i < 0 then CHR ''-'' # formatBits (nat (- sint i)) else formatBits (nat (sint i)))"

text \<open>
  \<^verbatim>\<open>Atoi(s)\<close> is \<^verbatim>\<open>ParseInt(s, 10, 0)\<close>: an optional sign, then at least one decimal digit
  and nothing else; the digits are accumulated in a \<^verbatim>\<open>uint64\<close> and the loop returns a
  range error as soon as the next step would overflow, a syntax error at the first byte
  that is not a digit.
\<close>

definition is_digit :: "char \<Rightarrow> bool" where
  "is_digit c \<longleftrightarrow> (48::nat) \<le> of_char c \<and> of_char c \<le> (57::nat)"

definition digit_val :: "char \<Rightarrow> nat" where
  "digit_val c = of_char c - 48"

definition maxUint64 :: nat where
  "maxUint64 = 2 ^ 64 - 1"

fun parse_digits :: "nat \<Rightarrow> string \<Rightarrow> num_err + nat" where
  "parse_digits n [] = Inr n"
| "parse_digits n (c # cs) =
     (if \<not> is_digit c then Inl ErrSyntax
      else if n \<ge> maxUint64 div 10 + 1 then Inl ErrRange
      else let n1 = n * 10 + digit_val c in
        if n1 > maxUint64 then Inl ErrRange
        else parse_digits n1 cs)"

definition ParseUint :: "string \<Rightarrow> num_err + nat" where
  "ParseUint s = (if s = [] then Inl ErrSyntax else parse_digits 0 s)"

definition ParseInt :: "string \<Rightarrow> num_err + go_int" where
  "ParseInt s0 =
     (if s0 = [] then Inl ErrSyntax
      else let neg = (hd s0 = CHR ''-'');
               s = (if hd s0 = CHR ''+'' \<or> hd s0 = CHR ''-'' then tl s0 else s0)
           in case ParseUint s of
                Inl e \<Rightarrow> Inl e
              | Inr un \<Rightarrow>
                  if \<not> neg \<and> un \<ge> 2 ^ 63 then Inl ErrRange
                  else if neg \<and> un > 2 ^ 63 then Inl ErrRange
                  else Inr (if neg then - word_of_nat un else word_of_nat un))"

definition Atoi :: "string \<Rightarrow> go_error + go_int" where
  "Atoi s = (case ParseInt s of Inl e \<Rightarrow> Inl (NumError ''Atoi'' s e) | Inr i \<Rightarrow> Inr i)"

subsection \<open>The cache operations\<close>

definition NewResources :: "string \<Rightarrow> (string \<times> 'r Resource) list \<Rightarrow> 'r Resources" where
  \<comment> \<open>library: the items indexed by their names (each item is given with its name)\<close>
  "NewResources version items = \<lparr>Version = version, Items = map_of (rev items)\<rparr>"

definition zeroResources :: "'r Resources" where
  \<comment> \<open>the zero value \<^verbatim>\<open>Resources{}\<close>\<close>
  "zeroResources = \<lparr>Version = [], Items = Map.empty\<rparr>"

definition NewCache :: "'r Cache" where
  "NewCache = Map.empty"

definition NewNodeCache :: "'r Cache \<Rightarrow> string \<Rightarrow> unit outcome \<times> 'r Cache" where
  "NewNodeCache cache nodeID =
     (let version = Itoa startingVersion;
          ncache = \<lparr>Resources = Array6 zeroResources zeroResources zeroResources
                                       zeroResources zeroResources zeroResources\<rparr>;
          ncache = ncache\<lparr>Resources := update6 (Resources ncache) Listener (NewResources version [])\<rparr>;
          ncache = ncache\<lparr>Resources := update6 (Resources ncache) Endpoint (NewResources version [])\<rparr>;
          ncache = ncache\<lparr>Resources := update6 (Resources ncache) Cluster (NewResources version [])\<rparr>;
          ncache = ncache\<lparr>Resources := update6 (Resources ncache) Route (NewResources version [])\<rparr>;
          ncache = ncache\<lparr>Resources := update6 (Resources ncache) Secret (NewResources version [])\<rparr>;
          ncache = ncache\<lparr>Resources := update6 (Resources ncache) Runtime (NewResources version [])\<rparr>
      in (Returns (), cache(nodeID \<mapsto> ncache)))"

definition DeleteNodeCache :: "'r Cache \<Rightarrow> string \<Rightarrow> unit outcome \<times> 'r Cache" where
  "DeleteNodeCache cache nodeID = (Returns (), cache(nodeID := None))"

definition GetNodeCache :: "'r Cache \<Rightarrow> string \<Rightarrow> 'r Snapshot option outcome \<times> 'r Cache" where
  "GetNodeCache cache nodeID = (Returns (cache nodeID), cache)"

definition SetResource ::
  "'r Cache \<Rightarrow> string \<Rightarrow> string \<Rightarrow> ResponseType \<Rightarrow> 'r Resource \<Rightarrow> unit outcome \<times> 'r Cache" where
  "SetResource cache nodeID name rtype v =
     (case cache nodeID of
        None \<Rightarrow> (Panics NilPointerDereference, cache)
      | Some snap \<Rightarrow>
          if \<not> in_bounds rtype then (Panics IndexOutOfRange, cache)
          else let r = index6 (Resources snap) rtype;
                   r = r\<lparr>Items := (Items r)(name \<mapsto> v)\<rparr>
               in (Returns (), cache(nodeID \<mapsto> snap\<lparr>Resources := update6 (Resources snap) rtype r\<rparr>)))"

definition GetResource ::
  "'r Cache \<Rightarrow> string \<Rightarrow> string \<Rightarrow> ResponseType \<Rightarrow> 'r Resource outcome \<times> 'r Cache" where
  "GetResource cache nodeID name rtype =
     (case cache nodeID of
        None \<Rightarrow> (Panics NilPointerDereference, cache)
      | Some snap \<Rightarrow>
          if \<not> in_bounds rtype then (Panics IndexOutOfRange, cache)
          else (Returns (case Items (index6 (Resources snap) rtype) name of
                           None \<Rightarrow> None | Some v \<Rightarrow> v), cache))"

definition DeleteResource ::
  "'r Cache \<Rightarrow> string \<Rightarrow> string \<Rightarrow> ResponseType \<Rightarrow> unit outcome \<times> 'r Cache" where
  "DeleteResource cache nodeID name rtype =
     (case cache nodeID of
        None \<Rightarrow> (Panics NilPointerDereference, cache)
      | Some snap \<Rightarrow>
          if \<not> in_bounds rtype then (Panics IndexOutOfRange, cache)
          else let r = index6 (Resources snap) rtype;
                   r = r\<lparr>Items := (Items r)(name := None)\<rparr>
               in (Returns (), cache(nodeID \<mapsto> snap\<lparr>Resources := update6 (Resources snap) rtype r\<rparr>)))"

definition ClearResources ::
  "'r Cache \<Rightarrow> string \<Rightarrow> ResponseType \<Rightarrow> unit outcome \<times> 'r Cache" where
  "ClearResources cache nodeID rtype =
     (case cache nodeID of
        None \<Rightarrow> (Panics NilPointerDereference, cache)
      | Some snap \<Rightarrow>
          if \<not> in_bounds rtype then (Panics IndexOutOfRange, cache)
          else let r = index6 (Resources snap) rtype;
                   r = r\<lparr>Items := Map.empty\<rparr>
               in (Returns (), cache(nodeID \<mapsto> snap\<lparr>Resources := update6 (Resources snap) rtype r\<rparr>)))"

text \<open>
  \<^verbatim>\<open>xds_cache.SnapshotCache\<close> is an interface of the library. Its method
  \<^verbatim>\<open>SetSnapshot(node string, snapshot Snapshot) error\<close> is a parameter here: a function of
  the node, the snapshot and the state \<open>'d\<close> of the distribution layer that gives the
  error (\<open>None\<close> for nil) and the new state. The cache's own \<^verbatim>\<open>SetSnapshot\<close> has no result:
  the call is an expression statement, and its value is dropped. The argument
  \<^verbatim>\<open>*cache[nodeID]\<close> is the snapshot as it is at the call.
\<close>

type_synonym ('r, 'd, 'e) SnapshotCache = "string \<Rightarrow> 'r Snapshot \<Rightarrow> 'd \<Rightarrow> 'e option \<times> 'd"

definition SetSnapshot ::
  "'r Cache \<Rightarrow> string \<Rightarrow> ('r, 'd, 'e) SnapshotCache \<Rightarrow> 'd \<Rightarrow> (unit outcome \<times> 'r Cache) \<times> 'd" where
  "SetSnapshot cache nodeID snapshotCache d =
     (case cache nodeID of
        None \<Rightarrow> ((Panics NilPointerDereference, cache), d)
      | Some snap \<Rightarrow>
          let (err, d') = snapshotCache nodeID snap d
          in ((Returns (), cache), d'))"

text \<open>
  A result \<^verbatim>\<open>(int, error)\<close> is a sum: \<open>Inl err\<close> for \<^verbatim>\<open>(0, err)\<close> and \<open>Inr v\<close> for
  \<^verbatim>\<open>(v, nil)\<close>.
\<close>

definition GetCurrentVersion ::
  "'r Cache \<Rightarrow> string \<Rightarrow> (go_error + go_int) outcome \<times> 'r Cache" where
  "GetCurrentVersion cache nodeID =
     (case cache nodeID of
        None \<Rightarrow> (Panics NilPointerDereference, cache)
      | Some snap \<Rightarrow>
          (case Atoi (Version (index6 (Resources snap) 0)) of
             Inl err \<Rightarrow> (Returns (Inl err), cache)
           | Inr version \<Rightarrow> (Returns (Inr version), cache)))"

text \<open>The loop \<^verbatim>\<open>for i := 0; i < 6; i++ { cache[nodeID].Resources[i].Version = sversion }\<close>.\<close>

function bump_loop :: "'r Cache \<Rightarrow> string \<Rightarrow> string \<Rightarrow> int \<Rightarrow> unit outcome \<times> 'r Cache" where
  "bump_loop cache nodeID sversion i =
     (if i < 6 then
        (case cache nodeID of
           None \<Rightarrow> (Panics NilPointerDereference, cache)
         | Some snap \<Rightarrow>
             if \<not> in_bounds i then (Panics IndexOutOfRange, cache)
             else let r = index6 (Resources snap) i;
                      r = r\<lparr>Version := sversion\<rparr>
                  in bump_loop (cache(nodeID \<mapsto> snap\<lparr>Resources := update6 (Resources snap) i r\<rparr>))
                               nodeID sversion (i + 1))
      else (Returns (), cache))"
  by pat_completeness auto
termination
  by (relation "measure (\<lambda>(cache, nodeID, sversion, i). nat (6 - i))") auto

declare bump_loop.simps [simp del]

definition BumpCacheVersion ::
  "'r Cache \<Rightarrow> string \<Rightarrow> (go_error + go_int) outcome \<times> 'r Cache" where
  "BumpCacheVersion cache nodeID =
     (case cache nodeID of
        None \<Rightarrow> (Panics NilPointerDereference, cache)
      | Some snap \<Rightarrow>
          (case Atoi (Version (index6 (Resources snap) 0)) of
             Inl err \<Rightarrow> (Returns (Inl err), cache)
           | Inr version \<Rightarrow>
               let version = version + 1;
                   sversion = Itoa version
               in (case bump_loop cache nodeID sversion 0 of
                     (Panics p, cache') \<Rightarrow> (Panics p, cache')
                   | (Returns u, cache') \<Rightarrow> (Returns (Inr version), cache'))))"

subsection \<open>Decimal numerals, stated apart from the parser\<close>

text \<open>
  What a string denotes as a decimal integer, written without the overflow checks of
  \<^verbatim>\<open>ParseUint\<close>: an optional sign, then one or more digits read as an unbounded number.
  \<open>parseable\<close> adds the range of a 64-bit \<^verbatim>\<open>int\<close>.
\<close>

definition dec_value :: "string \<Rightarrow> nat" where
  "dec_value ds = foldl (\<lambda>n c. n * 10 + digit_val c) 0 ds"

definition digits_value :: "string \<Rightarrow> int option" where
  "digits_value ds = (if ds \<noteq> [] \<and> list_all is_digit ds then Some (int (dec_value ds)) else None)"

definition decimal_int :: "string \<Rightarrow> int option" where
  "decimal_int s =
     (case s of
        [] \<Rightarrow> None
      | c # cs \<Rightarrow>
          if c = CHR ''+'' then digits_value cs
          else if c = CHR ''-'' then map_option uminus (digits_value cs)
          else digits_value s)"

definition int_range :: "int \<Rightarrow> bool" where
  "int_range n \<longleftrightarrow> - (2 ^ 63) \<le> n \<and> n < 2 ^ 63"

definition parseable :: "string \<Rightarrow> bool" where
  "parseable s = (case decimal_int s of None \<Rightarrow> False | Some n \<Rightarrow> int_range n)"

subsection \<open>The effect of the version loop, and example inputs\<close>

definition with_versions :: "string \<Rightarrow> 'r Snapshot \<Rightarrow> 'r Snapshot" where
  "with_versions sv snap =
     (case Resources snap of
        Array6 a0 a1 a2 a3 a4 a5 \<Rightarrow>
          snap\<lparr>Resources := Array6 (a0\<lparr>Version := sv\<rparr>) (a1\<lparr>Version := sv\<rparr>) (a2\<lparr>Version := sv\<rparr>)
                                    (a3\<lparr>Version := sv\<rparr>) (a4\<lparr>Version := sv\<rparr>) (a5\<lparr>Version := sv\<rparr>)\<rparr>)"

text \<open>
  Example caches with payloads of type \<open>nat\<close>: a node holding two clusters and a listener
  at version 1, and empty snapshots with chosen version strings.
\<close>

definition example_snapshot :: "nat Snapshot" where
  "example_snapshot =
     \<lparr>Resources = Array6 (NewResources ''1'' [])
                         (NewResources ''1'' [(''c1'', Some 10), (''c2'', Some 20)])
                         (NewResources ''1'' [])
                         (NewResources ''1'' [(''l1'', Some 30)])
                         (NewResources ''1'' [])
                         (NewResources ''1'' [])\<rparr>"

definition example_cache :: "nat Cache" where
  "example_cache = [''n1'' \<mapsto> example_snapshot, ''n2'' \<mapsto> example_snapshot]"

definition snapshot_of_versions ::
  "string \<Rightarrow> string \<Rightarrow> string \<Rightarrow> string \<Rightarrow> string \<Rightarrow> string \<Rightarrow> nat Snapshot" where
  "snapshot_of_versions v0 v1 v2 v3 v4 v5 =
     \<lparr>Resources = Array6 (NewResources v0 []) (NewResources v1 [(''c1'', Some 10)]) (NewResources v2 [])
                         (NewResources v3 []) (NewResources v4 []) (NewResources v5 [])\<rparr>"

definition corrupted_cache :: "nat Cache" where
  "corrupted_cache = [''n1'' \<mapsto> snapshot_of_versions ''abc'' ''abc'' ''abc'' ''abc'' ''abc'' ''abc'']"

definition negative_cache :: "nat Cache" where
  "negative_cache = [''n1'' \<mapsto> snapshot_of_versions ''-5'' ''-5'' ''-5'' ''-5'' ''-5'' ''-5'']"

definition largest_cache :: "nat Cache" where
  "largest_cache = [''n1'' \<mapsto> snapshot_of_versions ''9223372036854775807'' ''9223372036854775807''
       ''9223372036854775807'' ''9223372036854775807'' ''9223372036854775807'' ''9223372036854775807'']"

definition skewed_cache :: "nat Cache" where
  "skewed_cache = [''n1'' \<mapsto> snapshot_of_versions ''7'' ''1'' ''x'' [] ''3'' ''2'']"

text \<open>
  Two distribution layers: one stores the snapshot under the node and reports no error,
  as the library's own cache does; one refuses every snapshot.
\<close>

definition storing_layer :: "(nat, string \<rightharpoonup> nat Snapshot, string) SnapshotCache" where
  "storing_layer node snapshot d = (None, d(node \<mapsto> snapshot))"

definition rejecting_layer :: "(nat, string \<rightharpoonup> nat Snapshot, string) SnapshotCache" where
  "rejecting_layer node snapshot d = (Some ''rejected'', d)"

section \<open>Facts about the model\<close>

subsection \<open>Arrays\<close>

lemma index6_update6:
  "in_bounds i \<Longrightarrow> in_bounds j \<Longrightarrow> index6 (update6 a i v) j = (if j = i then v else index6 a j)"
  by (cases a) (auto simp: in_bounds_def)

lemma in_bounds_types:
  "in_bounds Endpoint" "in_bounds Cluster" "in_bounds Route"
  "in_bounds Listener" "in_bounds Secret" "in_bounds Runtime"
  by (simp_all add: in_bounds_def Endpoint_def Cluster_def Route_def Listener_def Secret_def Runtime_def)


subsection \<open>The version loop\<close>

lemma bump_loop_present:
  assumes "cache nodeID = Some snap"
  shows "bump_loop cache nodeID sv 0 = (Returns (), cache(nodeID \<mapsto> with_versions sv snap))"
proof (cases snap)
  case (fields rs)
  show ?thesis
  proof (cases rs)
    case (Array6 a0 a1 a2 a3 a4 a5)
    with fields assms show ?thesis
      by (simp add: bump_loop.simps in_bounds_def with_versions_def)
  qed
qed

lemma bump_loop_other:
  "m \<noteq> nodeID \<Longrightarrow> snd (bump_loop cache nodeID sv i) m = cache m"
  by (induction cache nodeID sv i rule: bump_loop.induct)
     (subst bump_loop.simps, auto simp: Let_def split: option.splits)

lemma BumpCacheVersion_present:
  assumes "cache nodeID = Some snap"
    and "Atoi (Version (index6 (Resources snap) 0)) = Inr v"
  shows "BumpCacheVersion cache nodeID =
           (Returns (Inr (v + 1)), cache(nodeID \<mapsto> with_versions (Itoa (v + 1)) snap))"
  using assms by (simp add: BumpCacheVersion_def Let_def bump_loop_present)

lemma BumpCacheVersion_other:
  assumes "m \<noteq> nodeID"
  shows "snd (BumpCacheVersion cache nodeID) m = cache m"
proof (cases "cache nodeID")
  case None
  then show ?thesis by (simp add: BumpCacheVersion_def)
next
  case (Some snap)
  show ?thesis
  proof (cases "Atoi (Version (index6 (Resources snap) 0))")
    case (Inl err)
    with Some show ?thesis by (simp add: BumpCacheVersion_def)
  next
    case (Inr v)
    with Some assms show ?thesis
      by (simp add: BumpCacheVersion_present [of cache nodeID snap v])
  qed
qed

subsection \<open>The parser against the decimal numerals\<close>

lemmas Atoi_unfold = Atoi_def ParseInt_def ParseUint_def is_digit_def digit_val_def maxUint64_def

lemmas Itoa_unfold = Itoa_def formatBits.simps digit_char_def

lemma foldl_dec_mono: "n \<le> foldl (\<lambda>n c. n * 10 + digit_val c) n ds"
proof (induction ds arbitrary: n)
  case Nil
  show ?case by simp
next
  case (Cons c cs)
  have "n \<le> n * 10 + digit_val c" by simp
  also have "\<dots> \<le> foldl (\<lambda>n c. n * 10 + digit_val c) (n * 10 + digit_val c) cs"
    by (rule Cons.IH)
  finally show ?case by simp
qed

lemma parse_digits_Inr:
  assumes "n \<le> maxUint64"
  shows "parse_digits n ds = Inr m \<longleftrightarrow>
     list_all is_digit ds \<and> foldl (\<lambda>n c. n * 10 + digit_val c) n ds \<le> maxUint64
     \<and> m = foldl (\<lambda>n c. n * 10 + digit_val c) n ds"
  using assms
proof (induction ds arbitrary: n)
  case Nil
  then show ?case by auto
next
  case (Cons c cs)
  let ?n1 = "n * 10 + digit_val c"
  have mono: "?n1 \<le> foldl (\<lambda>n c. n * 10 + digit_val c) ?n1 cs"
    by (rule foldl_dec_mono)
  show ?case
  proof (cases "is_digit c")
    case False
    then show ?thesis by simp
  next
    case dig: True
    show ?thesis
    proof (cases "n \<ge> maxUint64 div 10 + 1")
      case True
      then have "?n1 > maxUint64" by (simp add: maxUint64_def)
      with mono True dig show ?thesis by simp
    next
      case small: False
      show ?thesis
      proof (cases "?n1 > maxUint64")
        case True
        with mono small dig show ?thesis by (simp add: Let_def)
      next
        case False
        then have "?n1 \<le> maxUint64" by simp
        from Cons.IH [OF this] small dig False show ?thesis by (simp add: Let_def)
      qed
    qed
  qed
qed

lemma ParseUint_Inr:
  "ParseUint ds = Inr m \<longleftrightarrow> digits_value ds = Some (int m) \<and> m \<le> maxUint64"
  by (auto simp: ParseUint_def dec_value_def digits_value_def parse_digits_Inr)

lemma ParseUint_Inl:
  assumes "ParseUint ds = Inl e"
  shows "digits_value ds = None \<or> (\<exists>k. digits_value ds = Some k \<and> int maxUint64 < k)"
proof (cases "digits_value ds")
  case None
  then show ?thesis by simp
next
  case (Some k)
  then have k: "k = int (dec_value ds)" and ok: "digits_value ds = Some (int (dec_value ds))"
    by (auto simp: digits_value_def split: if_splits)
  have "\<not> dec_value ds \<le> maxUint64"
  proof
    assume "dec_value ds \<le> maxUint64"
    with ok have "ParseUint ds = Inr (dec_value ds)" by (simp add: ParseUint_Inr)
    with assms show False by simp
  qed
  with Some k show ?thesis by simp
qed


lemma signed_tail:
  assumes "s = c # cs"
  shows "ParseInt s =
     (case ParseUint (if c = CHR ''+'' \<or> c = CHR ''-'' then cs else s) of
        Inl e \<Rightarrow> Inl e
      | Inr un \<Rightarrow>
          if c \<noteq> CHR ''-'' \<and> un \<ge> 2 ^ 63 then Inl ErrRange
          else if c = CHR ''-'' \<and> un > 2 ^ 63 then Inl ErrRange
          else Inr (if c = CHR ''-'' then - word_of_nat un else word_of_nat un))"
  using assms by (simp add: ParseInt_def Let_def)

lemma ParseInt_Inr:
  "ParseInt s = Inr v \<longleftrightarrow> (\<exists>n. decimal_int s = Some n \<and> int_range n \<and> v = word_of_int n)"
proof (cases s)
  case Nil
  then show ?thesis by (simp add: ParseInt_def decimal_int_def)
next
  case (Cons c cs)
  let ?t = "if c = CHR ''+'' \<or> c = CHR ''-'' then cs else s"
  have dec: "decimal_int s = (if c = CHR ''-'' then map_option uminus (digits_value ?t) else digits_value ?t)"
    using Cons by (simp add: decimal_int_def)
  show ?thesis
  proof (cases "ParseUint ?t")
    case (Inl e)
    from ParseUint_Inl [OF this] have "\<not> (\<exists>n. decimal_int s = Some n \<and> int_range n)"
      unfolding dec by (auto simp: int_range_def maxUint64_def)
    moreover have "ParseInt s = Inl e"
      using Inl by (simp add: signed_tail [OF Cons])
    ultimately show ?thesis by auto
  next
    case (Inr un)
    then have dv: "digits_value ?t = Some (int un)"
      by (simp add: ParseUint_Inr)
    show ?thesis
    proof (cases "c = CHR ''-''")
      case True
      have "decimal_int s = Some (- int un)" using dec dv True by simp
      moreover have "ParseInt s = (if un > 2 ^ 63 then Inl ErrRange else Inr (- word_of_nat un))"
        using Inr True by (simp add: signed_tail [OF Cons])
      ultimately show ?thesis by (auto simp: int_range_def)
    next
      case False
      have "decimal_int s = Some (int un)" using dec dv False by simp
      moreover have "ParseInt s = (if un \<ge> 2 ^ 63 then Inl ErrRange else Inr (word_of_nat un))"
        using Inr False by (simp add: signed_tail [OF Cons])
      ultimately show ?thesis by (auto simp: int_range_def)
    qed
  qed
qed

lemma Atoi_Inr:
  "Atoi s = Inr v \<longleftrightarrow> (\<exists>n. decimal_int s = Some n \<and> int_range n \<and> v = word_of_int n)"
  by (simp add: Atoi_def ParseInt_Inr [symmetric] split: sum.splits)

lemma Atoi_Inl:
  "(\<exists>e. Atoi s = Inl e) \<longleftrightarrow> \<not> (\<exists>n. decimal_int s = Some n \<and> int_range n)"
proof -
  have "(\<exists>e. Atoi s = Inl e) \<longleftrightarrow> \<not> (\<exists>v. Atoi s = Inr v)"
    by (cases "Atoi s") auto
  then show ?thesis by (auto simp: Atoi_Inr)
qed










subsection \<open>The increment of a version\<close>


lemma increment_at_max: "sint (9223372036854775807 + 1 :: go_int) = - 9223372036854775808"
  by simp

lemmas example_defs = example_cache_def example_snapshot_def NewResources_def
  snapshot_of_versions_def corrupted_cache_def negative_cache_def skewed_cache_def largest_cache_def

section \<open>The claims\<close>

subsection \<open>C1: a version bump adds one and stamps all six collections\<close>




subsection \<open>C2: operations on a node without a snapshot\<close>

text \<open>
  C2 says that every operation on a node without a snapshot fails with an UnknownNode
  error. The package has no such error: on the empty cache \<^verbatim>\<open>GetNodeCache\<close> returns the nil
  pointer as an ordinary result, and \<^verbatim>\<open>SetResource\<close> and \<^verbatim>\<open>GetCurrentVersion\<close> dereference
  it and panic.
\<close>

theorem absent_node_counterexample:
  "(NewCache :: nat Cache) ''n1'' = None
   \<and> fst (GetNodeCache (NewCache :: nat Cache) ''n1'') = Returns None
   \<and> fst (SetResource (NewCache :: nat Cache) ''n1'' ''c1'' Cluster (Some 10)) = Panics NilPointerDereference
   \<and> fst (GetCurrentVersion (NewCache :: nat Cache) ''n1'') = Panics NilPointerDereference"
  by (simp add: NewCache_def GetNodeCache_def SetResource_def GetCurrentVersion_def)

text \<open>
  C2, as the code has it. For a node without a snapshot (in particular after
  \<^verbatim>\<open>DeleteNodeCache\<close>) and each of the six resource types, \<^verbatim>\<open>SetResource\<close>, \<^verbatim>\<open>GetResource\<close>,
  \<^verbatim>\<open>DeleteResource\<close>, \<^verbatim>\<open>ClearResources\<close>, \<^verbatim>\<open>GetCurrentVersion\<close> and \<^verbatim>\<open>BumpCacheVersion\<close> panic
  with a nil pointer dereference and leave the cache as it was, and \<^verbatim>\<open>GetNodeCache\<close>
  returns nil without an error.
\<close>

theorem absent_node_panics:
  assumes "cache nodeID = None" and "in_bounds rtype"
  shows "SetResource cache nodeID name rtype v = (Panics NilPointerDereference, cache)
    \<and> GetResource cache nodeID name rtype = (Panics NilPointerDereference, cache)
    \<and> DeleteResource cache nodeID name rtype = (Panics NilPointerDereference, cache)
    \<and> ClearResources cache nodeID rtype = (Panics NilPointerDereference, cache)
    \<and> GetCurrentVersion cache nodeID = (Panics NilPointerDereference, cache)
    \<and> BumpCacheVersion cache nodeID = (Panics NilPointerDereference, cache)
    \<and> GetNodeCache cache nodeID = (Returns None, cache)"
  using assms
  by (simp add: SetResource_def GetResource_def DeleteResource_def ClearResources_def
      GetCurrentVersion_def BumpCacheVersion_def GetNodeCache_def)

text \<open>
  The node \<open>n1\<close> of the example cache, once deleted.
\<close>

theorem absent_node_panics_witness:
  "snd (DeleteNodeCache example_cache ''n1'') ''n1'' = None \<and> in_bounds Cluster
   \<and> SetResource (snd (DeleteNodeCache example_cache ''n1'')) ''n1'' ''c1'' Cluster (Some 10)
       = (Panics NilPointerDereference, snd (DeleteNodeCache example_cache ''n1''))
   \<and> GetResource (snd (DeleteNodeCache example_cache ''n1'')) ''n1'' ''c1'' Cluster
       = (Panics NilPointerDereference, snd (DeleteNodeCache example_cache ''n1''))
   \<and> BumpCacheVersion (snd (DeleteNodeCache example_cache ''n1'')) ''n1''
       = (Panics NilPointerDereference, snd (DeleteNodeCache example_cache ''n1''))
   \<and> GetNodeCache (snd (DeleteNodeCache example_cache ''n1'')) ''n1''
       = (Returns None, snd (DeleteNodeCache example_cache ''n1''))"
proof -
  have absent: "snd (DeleteNodeCache example_cache ''n1'') ''n1'' = None"
    by (simp add: DeleteNodeCache_def)
  from absent_node_panics [of "snd (DeleteNodeCache example_cache ''n1'')" "''n1''" Cluster "''c1''" "Some 10"]
    absent in_bounds_types(2)
  show ?thesis by simp
qed

subsection \<open>C3: a new node has six empty collections at version 1\<close>

text \<open>
  C3. Whatever the cache held before, for \<open>nodeID\<close> or for any other node, after
  \<^verbatim>\<open>NewNodeCache(nodeID)\<close> the node's snapshot is six collections with version \<open>''1''\<close> and
  an empty item map each, so nothing of an earlier snapshot survives, and
  \<^verbatim>\<open>GetCurrentVersion(nodeID)\<close> returns 1.
\<close>

theorem NewNodeCache_fresh:
  "snd (NewNodeCache cache nodeID) nodeID =
     Some \<lparr>Resources = Array6 \<lparr>Version = ''1'', Items = Map.empty\<rparr> \<lparr>Version = ''1'', Items = Map.empty\<rparr>
                               \<lparr>Version = ''1'', Items = Map.empty\<rparr> \<lparr>Version = ''1'', Items = Map.empty\<rparr>
                               \<lparr>Version = ''1'', Items = Map.empty\<rparr> \<lparr>Version = ''1'', Items = Map.empty\<rparr>\<rparr>
   \<and> fst (GetCurrentVersion (snd (NewNodeCache cache nodeID)) nodeID) = Returns (Inr 1)"
proof -
  have one: "Itoa startingVersion = ''1''"
    by (simp add: startingVersion_def Itoa_unfold)
  have parsed: "Atoi ''1'' = Inr 1"
    by (simp add: Atoi_unfold)
  show ?thesis
    by (simp add: NewNodeCache_def one NewResources_def Listener_def Endpoint_def Cluster_def
        Route_def Secret_def Runtime_def GetCurrentVersion_def parsed Let_def)
qed

text \<open>
  Creating \<open>n1\<close> again in the example cache drops its clusters.
\<close>

theorem NewNodeCache_fresh_witness:
  "Items (index6 (Resources (the (snd (NewNodeCache example_cache ''n1'') ''n1''))) Cluster) = Map.empty
   \<and> Version (index6 (Resources (the (snd (NewNodeCache example_cache ''n1'') ''n1''))) Cluster) = ''1''
   \<and> fst (GetCurrentVersion (snd (NewNodeCache example_cache ''n1'')) ''n1'') = Returns (Inr 1)
   \<and> Items (index6 (Resources example_snapshot) Cluster) ''c1'' = Some (Some 10)"
proof -
  have "Items (index6 (Resources example_snapshot) Cluster) ''c1'' = Some (Some 10)"
    by (simp add: example_defs Cluster_def)
  with NewNodeCache_fresh [of example_cache "''n1''"] show ?thesis
    by (simp add: Cluster_def)
qed

subsection \<open>C4: reading back what was set or deleted\<close>

text \<open>
  C4. For a node present in the cache, each of the six resource types, every name and
  every value: \<^verbatim>\<open>GetResource\<close> right after \<^verbatim>\<open>SetResource\<close> with the same node, type and name
  returns the value, and \<^verbatim>\<open>GetResource\<close> right after \<^verbatim>\<open>DeleteResource\<close> returns nil, the
  not-found result.
\<close>

theorem SetResource_GetResource:
  assumes "cache nodeID = Some snap" and "in_bounds rtype"
  shows "fst (GetResource (snd (SetResource cache nodeID name rtype v)) nodeID name rtype) = Returns v
    \<and> fst (GetResource (snd (DeleteResource cache nodeID name rtype)) nodeID name rtype) = Returns None"
  using assms
  by (simp add: GetResource_def SetResource_def DeleteResource_def index6_update6 Let_def)

text \<open>
  Cluster \<open>c1\<close> of the example node is replaced, then deleted.
\<close>

theorem SetResource_GetResource_witness:
  "example_cache ''n1'' = Some example_snapshot \<and> in_bounds Cluster
   \<and> fst (GetResource example_cache ''n1'' ''c1'' Cluster) = Returns (Some 10)
   \<and> fst (GetResource (snd (SetResource example_cache ''n1'' ''c1'' Cluster (Some 11))) ''n1'' ''c1'' Cluster)
       = Returns (Some 11)
   \<and> fst (GetResource (snd (DeleteResource example_cache ''n1'' ''c1'' Cluster)) ''n1'' ''c1'' Cluster)
       = Returns None"
proof -
  have present: "example_cache ''n1'' = Some example_snapshot"
    by (simp add: example_cache_def)
  have before: "fst (GetResource example_cache ''n1'' ''c1'' Cluster) = Returns (Some 10)"
    by (simp add: GetResource_def present in_bounds_types) (simp add: example_defs Cluster_def)
  from SetResource_GetResource [of example_cache "''n1''" example_snapshot Cluster "''c1''" "Some 11"]
    present in_bounds_types(2) before
  show ?thesis by simp
qed

subsection \<open>C5: a bump of an unparseable version changes nothing\<close>

text \<open>
  C5. For a node whose stored version (the version string of the Endpoint collection)
  is not a decimal integer within the range of \<^verbatim>\<open>int\<close>, \<^verbatim>\<open>BumpCacheVersion\<close> returns the
  error of \<^verbatim>\<open>strconv.Atoi\<close> and the cache it leaves is the cache it was given: no item map
  and no version of the node's snapshot is modified.
\<close>

theorem BumpCacheVersion_unparseable:
  assumes "cache nodeID = Some snap"
    and "\<not> parseable (Version (index6 (Resources snap) Endpoint))"
  shows "\<exists>err. Atoi (Version (index6 (Resources snap) Endpoint)) = Inl err
     \<and> BumpCacheVersion cache nodeID = (Returns (Inl err), cache)"
proof -
  from assms(2) have "\<not> (\<exists>n. decimal_int (Version (index6 (Resources snap) Endpoint)) = Some n \<and> int_range n)"
    by (auto simp: parseable_def)
  then obtain err where "Atoi (Version (index6 (Resources snap) Endpoint)) = Inl err"
    using Atoi_Inl by blast
  with assms(1) show ?thesis
    by (simp add: BumpCacheVersion_def Endpoint_def)
qed

text \<open>
  A node whose six versions are \<open>''abc''\<close>.
\<close>

theorem BumpCacheVersion_unparseable_witness:
  "corrupted_cache ''n1'' = Some (snapshot_of_versions ''abc'' ''abc'' ''abc'' ''abc'' ''abc'' ''abc'')
   \<and> \<not> parseable (Version (index6 (Resources (snapshot_of_versions ''abc'' ''abc'' ''abc'' ''abc'' ''abc'' ''abc'')) Endpoint))
   \<and> BumpCacheVersion corrupted_cache ''n1'' = (Returns (Inl (NumError ''Atoi'' ''abc'' ErrSyntax)), corrupted_cache)"
proof -
  let ?snap = "snapshot_of_versions ''abc'' ''abc'' ''abc'' ''abc'' ''abc'' ''abc''"
  have present: "corrupted_cache ''n1'' = Some ?snap"
    by (simp add: corrupted_cache_def)
  have version: "Version (index6 (Resources ?snap) Endpoint) = ''abc''"
    by (simp add: example_defs Endpoint_def)
  have bad: "\<not> parseable (Version (index6 (Resources ?snap) Endpoint))"
    by (simp add: version parseable_def decimal_int_def digits_value_def is_digit_def)
  have err: "Atoi ''abc'' = Inl (NumError ''Atoi'' ''abc'' ErrSyntax)"
    by (simp add: Atoi_unfold)
  from BumpCacheVersion_unparseable [of corrupted_cache "''n1''" ?snap] present bad
  show ?thesis by (auto simp: version err)
qed

subsection \<open>C6: which versions the current version accepts\<close>

text \<open>
  C6 says that \<^verbatim>\<open>GetCurrentVersion\<close> fails exactly when the stored version is not a valid
  positive integer. The code parses with \<^verbatim>\<open>strconv.Atoi\<close> and checks no sign: a node whose
  version is \<open>''-5''\<close> gets the result \<open>-5\<close> and no error.
\<close>

theorem GetCurrentVersion_nonpositive_counterexample:
  "negative_cache ''n1'' = Some (snapshot_of_versions ''-5'' ''-5'' ''-5'' ''-5'' ''-5'' ''-5'')
   \<and> fst (GetCurrentVersion negative_cache ''n1'') = Returns (Inr (- 5))
   \<and> sint (- 5 :: go_int) = - 5"
  by (simp add: negative_cache_def GetCurrentVersion_def example_defs Atoi_unfold)

text \<open>
  C6, as the code has it. For a node present in the cache, \<^verbatim>\<open>GetCurrentVersion\<close> returns an
  error if and only if the version string of the Endpoint collection is not an optionally
  signed decimal integer within the range of \<^verbatim>\<open>int\<close>; when it is one, the result is that
  integer, be it positive, zero or negative.
\<close>

theorem GetCurrentVersion_parses:
  assumes "cache nodeID = Some snap"
  shows "((\<exists>err. fst (GetCurrentVersion cache nodeID) = Returns (Inl err))
            \<longleftrightarrow> \<not> parseable (Version (index6 (Resources snap) Endpoint)))
    \<and> (\<forall>n. decimal_int (Version (index6 (Resources snap) Endpoint)) = Some n \<and> int_range n \<longrightarrow>
           (\<exists>v. fst (GetCurrentVersion cache nodeID) = Returns (Inr v) \<and> sint v = n))"
proof -
  let ?s = "Version (index6 (Resources snap) Endpoint)"
  have result: "fst (GetCurrentVersion cache nodeID) = Returns (Atoi ?s)"
    using assms by (simp add: GetCurrentVersion_def Endpoint_def split: sum.splits)
  have fails: "(\<exists>err. Atoi ?s = Inl err) \<longleftrightarrow> \<not> parseable ?s"
    by (simp add: Atoi_Inl parseable_def split: option.splits)
  have good: "\<exists>v. Atoi ?s = Inr v \<and> sint v = n" if "decimal_int ?s = Some n" and "int_range n" for n
  proof -
    from that have "Atoi ?s = Inr (word_of_int n)"
      by (simp add: Atoi_Inr)
    moreover from that(2) have "sint (word_of_int n :: go_int) = n"
      by (simp add: int_range_def sint_sbintrunc' signed_take_bit_int_eq_self)
    ultimately show ?thesis by blast
  qed
  from result fails good show ?thesis by auto
qed

text \<open>
  The node whose version is \<open>''-5''\<close>.
\<close>

theorem GetCurrentVersion_parses_witness:
  "negative_cache ''n1'' = Some (snapshot_of_versions ''-5'' ''-5'' ''-5'' ''-5'' ''-5'' ''-5'')
   \<and> parseable ''-5'' \<and> decimal_int ''-5'' = Some (- 5) \<and> int_range (- 5)
   \<and> \<not> (\<exists>err. fst (GetCurrentVersion negative_cache ''n1'') = Returns (Inl err))
   \<and> (\<exists>v. fst (GetCurrentVersion negative_cache ''n1'') = Returns (Inr v) \<and> sint v = - 5)"
proof -
  let ?snap = "snapshot_of_versions ''-5'' ''-5'' ''-5'' ''-5'' ''-5'' ''-5''"
  have present: "negative_cache ''n1'' = Some ?snap"
    by (simp add: negative_cache_def)
  have version: "Version (index6 (Resources ?snap) Endpoint) = ''-5''"
    by (simp add: example_defs Endpoint_def)
  have dec: "decimal_int ''-5'' = Some (- 5)"
    by (simp add: decimal_int_def digits_value_def is_digit_def dec_value_def digit_val_def)
  have small: "int_range (- 5)"
    by (simp add: int_range_def)
  have ok: "parseable ''-5''"
    by (simp add: parseable_def dec small)
  from GetCurrentVersion_parses [of negative_cache "''n1''" ?snap] present
  show ?thesis unfolding version using dec small ok by auto
qed

subsection \<open>C7: handing the snapshot to the distribution layer\<close>

text \<open>
  C7 says that a failure of the distribution layer is returned to the caller. The
  cache's \<^verbatim>\<open>SetSnapshot\<close> has no result and drops the error of the layer's
  \<^verbatim>\<open>SetSnapshot\<close>: with a layer that refuses the snapshot the call returns as any other.
\<close>

theorem SetSnapshot_error_dropped_counterexample:
  "example_cache ''n1'' = Some example_snapshot
   \<and> fst (rejecting_layer ''n1'' example_snapshot Map.empty) = Some ''rejected''
   \<and> fst (SetSnapshot example_cache ''n1'' rejecting_layer Map.empty) = (Returns (), example_cache)"
  by (simp add: example_cache_def rejecting_layer_def SetSnapshot_def)

text \<open>
  C7, as the code has it. For a node present in the cache, \<^verbatim>\<open>SetSnapshot\<close> calls the
  layer's \<^verbatim>\<open>SetSnapshot\<close> once, with the node's identity and the node's current snapshot
  (the one \<^verbatim>\<open>GetNodeCache\<close> returns), leaves the cache unchanged and returns nothing: the
  state of the layer is what the layer made of it, and an error the layer reports is
  dropped, not returned to the caller.
\<close>

theorem SetSnapshot_hands_over:
  assumes "cache nodeID = Some snap"
  shows "fst (GetNodeCache cache nodeID) = Returns (Some snap)
    \<and> SetSnapshot cache nodeID layer d = ((Returns (), cache), snd (layer nodeID snap d))"
  using assms by (simp add: GetNodeCache_def SetSnapshot_def split: prod.splits)

text \<open>
  The example node, published to the storing layer.
\<close>

theorem SetSnapshot_hands_over_witness:
  "example_cache ''n1'' = Some example_snapshot
   \<and> fst (GetNodeCache example_cache ''n1'') = Returns (Some example_snapshot)
   \<and> SetSnapshot example_cache ''n1'' storing_layer Map.empty
       = ((Returns (), example_cache), [''n1'' \<mapsto> example_snapshot])"
proof -
  have present: "example_cache ''n1'' = Some example_snapshot"
    by (simp add: example_cache_def)
  from SetSnapshot_hands_over [of example_cache "''n1''" example_snapshot storing_layer Map.empty] present
  show ?thesis by (simp add: storing_layer_def)
qed

subsection \<open>C8: clearing one collection\<close>

text \<open>
  C8. For a node present in the cache and each of the six resource types,
  \<^verbatim>\<open>ClearResources\<close> returns normally; afterwards the item map of the addressed collection
  is empty, the item maps of the other five collections are the ones from before, and
  every collection has the version it had.
\<close>

theorem ClearResources_frame:
  assumes "cache nodeID = Some snap" and "in_bounds rtype"
  shows "fst (ClearResources cache nodeID rtype) = Returns ()
    \<and> (\<exists>snap'. snd (ClearResources cache nodeID rtype) nodeID = Some snap'
       \<and> Items (index6 (Resources snap') rtype) = Map.empty
       \<and> (\<forall>i. in_bounds i \<and> i \<noteq> rtype \<longrightarrow>
              Items (index6 (Resources snap') i) = Items (index6 (Resources snap) i))
       \<and> (\<forall>i. in_bounds i \<longrightarrow>
              Version (index6 (Resources snap') i) = Version (index6 (Resources snap) i)))"
  using assms by (simp add: ClearResources_def Let_def index6_update6)

text \<open>
  Clearing the clusters of the example node keeps its listener and the version.
\<close>

theorem ClearResources_frame_witness:
  "example_cache ''n1'' = Some example_snapshot \<and> in_bounds Cluster
   \<and> Items (index6 (Resources example_snapshot) Cluster) ''c1'' = Some (Some 10)
   \<and> fst (ClearResources example_cache ''n1'' Cluster) = Returns ()
   \<and> (\<exists>snap'. snd (ClearResources example_cache ''n1'' Cluster) ''n1'' = Some snap'
        \<and> Items (index6 (Resources snap') Cluster) = Map.empty
        \<and> Items (index6 (Resources snap') Listener) ''l1'' = Some (Some 30)
        \<and> Version (index6 (Resources snap') Cluster) = ''1'')"
proof -
  have present: "example_cache ''n1'' = Some example_snapshot"
    by (simp add: example_cache_def)
  have before: "Items (index6 (Resources example_snapshot) Cluster) ''c1'' = Some (Some 10)"
    "Items (index6 (Resources example_snapshot) Listener) ''l1'' = Some (Some 30)"
    "Version (index6 (Resources example_snapshot) Cluster) = ''1''"
    by (simp_all add: example_defs Cluster_def Listener_def)
  have distinct: "Listener \<noteq> Cluster"
    by (simp add: Listener_def Cluster_def)
  from ClearResources_frame [of example_cache "''n1''" example_snapshot Cluster] present in_bounds_types(2)
  obtain snap' where "fst (ClearResources example_cache ''n1'' Cluster) = Returns ()"
    and "snd (ClearResources example_cache ''n1'' Cluster) ''n1'' = Some snap'"
    and "Items (index6 (Resources snap') Cluster) = Map.empty"
    and items: "\<forall>i. in_bounds i \<and> i \<noteq> Cluster \<longrightarrow>
              Items (index6 (Resources snap') i) = Items (index6 (Resources example_snapshot) i)"
    and versions: "\<forall>i. in_bounds i \<longrightarrow>
              Version (index6 (Resources snap') i) = Version (index6 (Resources example_snapshot) i)"
    by blast
  moreover from items distinct in_bounds_types(4) before(2)
  have "Items (index6 (Resources snap') Listener) ''l1'' = Some (Some 30)" by simp
  moreover from versions in_bounds_types(2) before(3)
  have "Version (index6 (Resources snap') Cluster) = ''1''" by simp
  ultimately show ?thesis using present in_bounds_types(2) before(1) by blast
qed

subsection \<open>C9: other nodes are left alone\<close>

text \<open>
  C9. For all caches and all pairs of distinct node identities \<open>m\<close> and \<open>n\<close>, every
  operation addressed to \<open>n\<close> (\<^verbatim>\<open>NewNodeCache\<close>, \<^verbatim>\<open>DeleteNodeCache\<close>, \<^verbatim>\<open>SetResource\<close>,
  \<^verbatim>\<open>GetResource\<close>, \<^verbatim>\<open>DeleteResource\<close>, \<^verbatim>\<open>ClearResources\<close>, \<^verbatim>\<open>BumpCacheVersion\<close>,
  \<^verbatim>\<open>GetCurrentVersion\<close>, \<^verbatim>\<open>SetSnapshot\<close>, and \<^verbatim>\<open>GetNodeCache\<close> too) leaves the entry of \<open>m\<close>
  as it was, whether the operation returns or panics.
\<close>

theorem other_nodes_untouched:
  assumes "m \<noteq> n"
  shows "snd (NewNodeCache cache n) m = cache m
    \<and> snd (DeleteNodeCache cache n) m = cache m
    \<and> snd (SetResource cache n name rtype v) m = cache m
    \<and> snd (GetResource cache n name rtype) m = cache m
    \<and> snd (DeleteResource cache n name rtype) m = cache m
    \<and> snd (ClearResources cache n rtype) m = cache m
    \<and> snd (BumpCacheVersion cache n) m = cache m
    \<and> snd (GetCurrentVersion cache n) m = cache m
    \<and> snd (fst (SetSnapshot cache n layer d)) m = cache m
    \<and> snd (GetNodeCache cache n) m = cache m"
proof -
  have "snd (NewNodeCache cache n) m = cache m"
    using assms by (simp add: NewNodeCache_def Let_def)
  moreover have "snd (DeleteNodeCache cache n) m = cache m"
    using assms by (simp add: DeleteNodeCache_def)
  moreover have "snd (SetResource cache n name rtype v) m = cache m"
    using assms by (simp add: SetResource_def Let_def split: option.splits)
  moreover have "snd (GetResource cache n name rtype) m = cache m"
    by (simp add: GetResource_def split: option.splits)
  moreover have "snd (DeleteResource cache n name rtype) m = cache m"
    using assms by (simp add: DeleteResource_def Let_def split: option.splits)
  moreover have "snd (ClearResources cache n rtype) m = cache m"
    using assms by (simp add: ClearResources_def Let_def split: option.splits)
  moreover have "snd (BumpCacheVersion cache n) m = cache m"
    using assms by (rule BumpCacheVersion_other)
  moreover have "snd (GetCurrentVersion cache n) m = cache m"
    by (simp add: GetCurrentVersion_def split: option.splits sum.splits)
  moreover have "snd (fst (SetSnapshot cache n layer d)) m = cache m"
    by (simp add: SetSnapshot_def split: option.splits prod.splits)
  moreover have "snd (GetNodeCache cache n) m = cache m"
    by (simp add: GetNodeCache_def)
  ultimately show ?thesis by simp
qed

text \<open>
  Operations on \<open>n1\<close> keep the snapshot of \<open>n2\<close> in the example cache.
\<close>

theorem other_nodes_untouched_witness:
  "''n2'' \<noteq> ''n1''
   \<and> example_cache ''n2'' = Some example_snapshot
   \<and> snd (NewNodeCache example_cache ''n1'') ''n2'' = Some example_snapshot
   \<and> snd (DeleteNodeCache example_cache ''n1'') ''n2'' = Some example_snapshot
   \<and> snd (SetResource example_cache ''n1'' ''c1'' Cluster (Some 11)) ''n2'' = Some example_snapshot
   \<and> snd (DeleteResource example_cache ''n1'' ''c1'' Cluster) ''n2'' = Some example_snapshot
   \<and> snd (ClearResources example_cache ''n1'' Cluster) ''n2'' = Some example_snapshot
   \<and> snd (BumpCacheVersion example_cache ''n1'') ''n2'' = Some example_snapshot
   \<and> snd (fst (SetSnapshot example_cache ''n1'' storing_layer Map.empty)) ''n2'' = Some example_snapshot"
proof -
  have distinct: "''n2'' \<noteq> ''n1''" by simp
  have other: "example_cache ''n2'' = Some example_snapshot"
    by (simp add: example_cache_def)
  from other_nodes_untouched [of "''n2''" "''n1''" example_cache "''c1''" Cluster "Some 11"
      storing_layer Map.empty] distinct other
  have "snd (NewNodeCache example_cache ''n1'') ''n2'' = Some example_snapshot"
    and "snd (DeleteNodeCache example_cache ''n1'') ''n2'' = Some example_snapshot"
    and "snd (SetResource example_cache ''n1'' ''c1'' Cluster (Some 11)) ''n2'' = Some example_snapshot"
    and "snd (DeleteResource example_cache ''n1'' ''c1'' Cluster) ''n2'' = Some example_snapshot"
    and "snd (ClearResources example_cache ''n1'' Cluster) ''n2'' = Some example_snapshot"
    and "snd (BumpCacheVersion example_cache ''n1'') ''n2'' = Some example_snapshot"
    and "snd (fst (SetSnapshot example_cache ''n1'' storing_layer Map.empty)) ''n2'' = Some example_snapshot"
    by simp_all
  with distinct other show ?thesis by blast
qed

subsection \<open>C10: the Endpoint collection holds the authoritative version\<close>



end
